theory Spec2Isabelle
  imports Main
begin

section \<open>Errors (errors.go)\<close>

text \<open>
  A Go \<^verbatim>\<open>error\<close> is an interface value that may be nil: it is modelled as
  \<open>error option\<close>, with \<open>None\<close> for nil. The three wrapper structs of errors.go
  keep their field \<^verbatim>\<open>Err error\<close>, which may be nil as well. \<open>Opaque\<close> stands for
  an error made outside this package (by the driver or by the caller's action),
  identified by its message. \<open>joinError\<close> is the value of \<^verbatim>\<open>errors.Join\<close> and
  \<open>wrapError\<close> the value of \<^verbatim>\<open>fmt.Errorf(prefix + "%w", err)\<close>.
\<close>

datatype error =
    ErrTransactionNotStarted
  | Opaque string
  | FailedToRollbackError "error option"
  | FailedToCommitError "error option"
  | FailedToStartTransactionError "error option"
  | joinError "error list"
  | wrapError string "error option"

definition FailedToRollback :: "error option \<Rightarrow> error option" where
  "FailedToRollback err = Some (FailedToRollbackError err)"

definition FailedToCommit :: "error option \<Rightarrow> error option" where
  "FailedToCommit err = Some (FailedToCommitError err)"

definition FailedToStartTransaction :: "error option \<Rightarrow> error option" where
  "FailedToStartTransaction err = Some (FailedToStartTransactionError err)"

text \<open>
  \<^verbatim>\<open>errors.Join\<close> drops the nil arguments and returns nil when none is left.
\<close>

definition Join :: "error option list \<Rightarrow> error option" where
  "Join errs =
     (let es = List.map_filter (\<lambda>e. e) errs
      in if es = [] then None else Some (joinError es))"

fun join_lines :: "string list \<Rightarrow> string" where
  "join_lines [] = []"
| "join_lines [s] = s"
| "join_lines (s # t # ss) = s @ [CHR 0x0A] @ join_lines (t # ss)"

text \<open>The \<^verbatim>\<open>Error()\<close> methods: the message of an error.\<close>

fun Error :: "error \<Rightarrow> string" where
  "Error ErrTransactionNotStarted = ''transaction not started''"
| "Error (Opaque s) = s"
| "Error (FailedToRollbackError None) = ''failed to rollback transaction: %!w(<nil>)''"
| "Error (FailedToRollbackError (Some e)) = ''failed to rollback transaction: '' @ Error e"
| "Error (FailedToCommitError None) = ''failed to commit transaction: %!w(<nil>)''"
| "Error (FailedToCommitError (Some e)) = ''failed to commit transaction: '' @ Error e"
| "Error (FailedToStartTransactionError None) = ''failed to start transaction: %!w(<nil>)''"
| "Error (FailedToStartTransactionError (Some e)) = ''failed to start transaction: '' @ Error e"
| "Error (joinError es) = join_lines (map Error es)"
| "Error (wrapError prefix None) = prefix @ ''%!w(<nil>)''"
| "Error (wrapError prefix (Some e)) = prefix @ Error e"

section \<open>Transaction options\<close>

text \<open>
  \<^verbatim>\<open>database/sql\<close> declares \<^verbatim>\<open>type IsolationLevel int\<close> with the constants
  below (\<^verbatim>\<open>iota\<close> from \<^verbatim>\<open>LevelDefault\<close>), and
  \<^verbatim>\<open>TxOptions{Isolation IsolationLevel; ReadOnly bool}\<close>. Any integer is a value of
  the type. The helpers and adapters take a \<^verbatim>\<open>*sql.TxOptions\<close>, which may be nil:
  \<open>sql_TxOptions option\<close>.
\<close>

type_synonym sql_IsolationLevel = int

definition sql_LevelDefault :: sql_IsolationLevel where "sql_LevelDefault = 0"
definition sql_LevelReadUncommitted :: sql_IsolationLevel where "sql_LevelReadUncommitted = 1"
definition sql_LevelReadCommitted :: sql_IsolationLevel where "sql_LevelReadCommitted = 2"
definition sql_LevelWriteCommitted :: sql_IsolationLevel where "sql_LevelWriteCommitted = 3"
definition sql_LevelRepeatableRead :: sql_IsolationLevel where "sql_LevelRepeatableRead = 4"
definition sql_LevelSnapshot :: sql_IsolationLevel where "sql_LevelSnapshot = 5"
definition sql_LevelSerializable :: sql_IsolationLevel where "sql_LevelSerializable = 6"
definition sql_LevelLinearizable :: sql_IsolationLevel where "sql_LevelLinearizable = 7"

record sql_TxOptions =
  Isolation :: sql_IsolationLevel
  ReadOnly :: bool

text \<open>The presets (the file of package uow that returns \<^verbatim>\<open>*sql.TxOptions\<close>).\<close>

definition DefaultTxOptions :: "sql_TxOptions option" where
  "DefaultTxOptions = Some \<lparr>Isolation = sql_LevelReadCommitted, ReadOnly = False\<rparr>"

definition SerializableTxOptions :: "sql_TxOptions option" where
  "SerializableTxOptions = Some \<lparr>Isolation = sql_LevelSerializable, ReadOnly = False\<rparr>"

definition ReadOnlyTxOptions :: "sql_TxOptions option" where
  "ReadOnlyTxOptions = Some \<lparr>Isolation = sql_LevelReadCommitted, ReadOnly = True\<rparr>"

text \<open>
  pgx/v5 declares \<^verbatim>\<open>type TxIsoLevel string\<close> and \<^verbatim>\<open>type TxAccessMode string\<close>
  with the constants below; the zero value of both is the empty string, which pgx
  reads as "not set". Of \<^verbatim>\<open>pgx.TxOptions\<close> only the two fields that the mapping
  writes are kept; the others stay at their zero value on every path.
\<close>

type_synonym pgx_TxIsoLevel = string
type_synonym pgx_TxAccessMode = string

definition pgx_Serializable :: pgx_TxIsoLevel where "pgx_Serializable = ''serializable''"
definition pgx_RepeatableRead :: pgx_TxIsoLevel where "pgx_RepeatableRead = ''repeatable read''"
definition pgx_ReadCommitted :: pgx_TxIsoLevel where "pgx_ReadCommitted = ''read committed''"
definition pgx_ReadUncommitted :: pgx_TxIsoLevel where "pgx_ReadUncommitted = ''read uncommitted''"

definition pgx_ReadWrite :: pgx_TxAccessMode where "pgx_ReadWrite = ''read write''"
definition pgx_ReadOnly :: pgx_TxAccessMode where "pgx_ReadOnly = ''read only''"

record pgx_TxOptions =
  IsoLevel :: pgx_TxIsoLevel
  AccessMode :: pgx_TxAccessMode

text \<open>pgxv5/uow.go, \<^verbatim>\<open>mapSQLTxOptionsToPgx\<close>.\<close>

definition mapSQLTxOptionsToPgx :: "sql_TxOptions option \<Rightarrow> pgx_TxOptions" where
  "mapSQLTxOptionsToPgx options =
     (let txOptions = \<lparr>IsoLevel = [], AccessMode = []\<rparr>
      in case options of
           None \<Rightarrow> txOptions
         | Some opts \<Rightarrow>
             (let txOptions =
                    (if Isolation opts = sql_LevelReadUncommitted
                       then txOptions\<lparr>IsoLevel := pgx_ReadUncommitted\<rparr>
                     else if Isolation opts = sql_LevelReadCommitted
                       then txOptions\<lparr>IsoLevel := pgx_ReadCommitted\<rparr>
                     else if Isolation opts = sql_LevelRepeatableRead
                       then txOptions\<lparr>IsoLevel := pgx_RepeatableRead\<rparr>
                     else if Isolation opts = sql_LevelSerializable
                       then txOptions\<lparr>IsoLevel := pgx_Serializable\<rparr>
                     else txOptions\<lparr>IsoLevel := pgx_ReadCommitted\<rparr>);
                  txOptions =
                    (if ReadOnly opts
                       then txOptions\<lparr>AccessMode := pgx_ReadOnly\<rparr>
                     else txOptions\<lparr>AccessMode := pgx_ReadWrite\<rparr>)
              in txOptions))"

section \<open>The native driver\<close>

text \<open>
  The connection pool, the connections and the native transactions belong to
  \<^verbatim>\<open>database/sql\<close> and to pgx, outside this repository. The adapters only call
  them, so the driver is a log of the calls received, together with its answers:
  \<open>answer d h c\<close> is the error (or \<open>None\<close> for success) with which the driver
  answers the call \<open>c\<close> after the history \<open>h\<close>. Every deterministic driver is such a
  function. A connection or transaction handle is the position in the log of the
  call that made it.
\<close>

datatype native_call =
    PoolAcquire
  | ConnBeginTx nat pgx_TxOptions
  | ConnRelease nat
  | DBBeginTx nat "sql_TxOptions option"
  | TxCommit nat
  | TxRollback nat

record driver =
  calls :: "native_call list"
  answer :: "native_call list \<Rightarrow> native_call \<Rightarrow> error option"

definition native :: "native_call \<Rightarrow> driver \<Rightarrow> error option \<times> driver" where
  "native c d = (answer d (calls d) c, d\<lparr>calls := calls d @ [c]\<rparr>)"

definition native_new :: "native_call \<Rightarrow> driver \<Rightarrow> (error + nat) \<times> driver" where
  "native_new c d =
     (case answer d (calls d) c of
        Some err \<Rightarrow> (Inl err, d\<lparr>calls := calls d @ [c]\<rparr>)
      | None \<Rightarrow> (Inr (length (calls d)), d\<lparr>calls := calls d @ [c]\<rparr>))"

section \<open>Calls that return or panic\<close>

text \<open>
  A Go call returns its values or panics with a value. \<^verbatim>\<open>panic(nil)\<close> reaches
  \<^verbatim>\<open>recover\<close> as a non-nil runtime error since Go 1.21, so a panic always
  carries a value.
\<close>

datatype panic_value = PanicString string | PanicError error

datatype 'a outcome = Return 'a | Panic panic_value

section \<open>The pgx adapter (pgxv5/uow.go)\<close>

text \<open>
  The struct \<^verbatim>\<open>pgUOW\<close>. \<open>tx = None\<close> is the nil transaction. The field
  \<^verbatim>\<open>repoRegistry\<close> holds a value of the type parameter; \<open>None\<close> is the zero value that
  the struct literal of \<^verbatim>\<open>newPgUOW\<close> leaves there.
\<close>

record 'r pgUOW =
  tx :: "nat option"
  repoRegistry :: "'r option"
  conn :: nat
  repoRegistryFactory :: "nat \<Rightarrow> 'r"

definition newPgUOW :: "nat \<Rightarrow> (nat \<Rightarrow> 'r) \<Rightarrow> 'r pgUOW" where
  "newPgUOW c f = \<lparr>tx = None, repoRegistry = None, conn = c, repoRegistryFactory = f\<rparr>"


definition pgUOW_MustRepoRegistry :: "'r pgUOW \<Rightarrow> 'r option outcome" where
  "pgUOW_MustRepoRegistry u =
     (if tx u = None then Panic (PanicString ''transaction not started'')
      else Return (repoRegistry u))"

definition pgUOW_Begin ::
  "sql_TxOptions option \<Rightarrow> 'r pgUOW \<times> driver \<Rightarrow> error option \<times> 'r pgUOW \<times> driver" where
  "pgUOW_Begin options s =
     (case s of (u, d) \<Rightarrow>
        (let pgxOptions = mapSQLTxOptionsToPgx options
         in case native_new (ConnBeginTx (conn u) pgxOptions) d of
              (Inl err, d') \<Rightarrow> (Some err, u, d')
            | (Inr t, d') \<Rightarrow>
                (None,
                 u\<lparr>tx := Some t, repoRegistry := Some (repoRegistryFactory u t)\<rparr>,
                 d')))"

text \<open>
  \<^verbatim>\<open>defer u.conn.Release()\<close> is the first statement of Commit and of Rollback: the
  release runs when the method returns, on each of its two paths.
\<close>

definition pgUOW_Commit :: "'r pgUOW \<times> driver \<Rightarrow> error option \<times> 'r pgUOW \<times> driver" where
  "pgUOW_Commit s =
     (case s of (u, d) \<Rightarrow>
        (case (case tx u of
                 None \<Rightarrow> (Some ErrTransactionNotStarted, d)
               | Some t \<Rightarrow> native (TxCommit t) d) of
           (r, d') \<Rightarrow> (r, u, snd (native (ConnRelease (conn u)) d'))))"

definition pgUOW_Rollback :: "'r pgUOW \<times> driver \<Rightarrow> error option \<times> 'r pgUOW \<times> driver" where
  "pgUOW_Rollback s =
     (case s of (u, d) \<Rightarrow>
        (case (case tx u of
                 None \<Rightarrow> (Some ErrTransactionNotStarted, d)
               | Some t \<Rightarrow> native (TxRollback t) d) of
           (r, d') \<Rightarrow> (r, u, snd (native (ConnRelease (conn u)) d'))))"

section \<open>The database/sql adapter (stdsql/uow.go)\<close>

record 'r sqlUOW =
  sql_tx :: "nat option"
  sql_repoRegistry :: "'r option"
  db :: nat
  sql_repoRegistryFactory :: "nat \<Rightarrow> 'r"

definition newSQLUOW :: "nat \<Rightarrow> (nat \<Rightarrow> 'r) \<Rightarrow> 'r sqlUOW" where
  "newSQLUOW b f =
     \<lparr>sql_tx = None, sql_repoRegistry = None, db = b, sql_repoRegistryFactory = f\<rparr>"


definition sqlUOW_Begin ::
  "sql_TxOptions option \<Rightarrow> 'r sqlUOW \<times> driver \<Rightarrow> error option \<times> 'r sqlUOW \<times> driver" where
  "sqlUOW_Begin options s =
     (case s of (u, d) \<Rightarrow>
        (case native_new (DBBeginTx (db u) options) d of
           (Inl err, d') \<Rightarrow>
             (Some (wrapError ''failed to begin transaction: '' (Some err)), u, d')
         | (Inr t, d') \<Rightarrow>
             (None,
              u\<lparr>sql_tx := Some t, sql_repoRegistry := Some (sql_repoRegistryFactory u t)\<rparr>,
              d')))"

definition sqlUOW_Commit :: "'r sqlUOW \<times> driver \<Rightarrow> error option \<times> 'r sqlUOW \<times> driver" where
  "sqlUOW_Commit s =
     (case s of (u, d) \<Rightarrow>
        (case sql_tx u of
           None \<Rightarrow> (Some ErrTransactionNotStarted, u, d)
         | Some t \<Rightarrow> (case native (TxCommit t) d of (r, d') \<Rightarrow> (r, u, d'))))"

definition sqlUOW_Rollback :: "'r sqlUOW \<times> driver \<Rightarrow> error option \<times> 'r sqlUOW \<times> driver" where
  "sqlUOW_Rollback s =
     (case s of (u, d) \<Rightarrow>
        (case sql_tx u of
           None \<Rightarrow> (Some ErrTransactionNotStarted, u, d)
         | Some t \<Rightarrow> (case native (TxRollback t) d of (r, d') \<Rightarrow> (r, u, d'))))"

section \<open>The interfaces of package uow\<close>

text \<open>
  \<^verbatim>\<open>UOW[TRepoRegistry]\<close> and \<^verbatim>\<open>Factory[TRepoRegistry]\<close> are interfaces: a value
  is its method table. The methods act on a world \<open>'w\<close>, which holds the object
  behind the interface and everything it reaches. \<open>'o\<close> is the type of the options of
  \<^verbatim>\<open>Begin\<close>: the helpers only pass them on. \<^verbatim>\<open>NewUOW\<close>, \<^verbatim>\<open>Begin\<close>,
  \<^verbatim>\<open>Commit\<close> and \<^verbatim>\<open>Rollback\<close> return an error or nil, as those of both adapters
  do; only \<^verbatim>\<open>MustRepoRegistry\<close> and the caller's action may panic.
\<close>

record ('w, 'o, 'r) UOW =
  MustRepoRegistry :: "'w \<Rightarrow> 'r option outcome"
  Begin :: "'o \<Rightarrow> 'w \<Rightarrow> error option \<times> 'w"
  Commit :: "'w \<Rightarrow> error option \<times> 'w"
  Rollback :: "'w \<Rightarrow> error option \<times> 'w"

record ('w, 'o, 'r) Factory =
  NewUOW :: "'w \<Rightarrow> (error + ('w, 'o, 'r) UOW) \<times> 'w"
  Release :: "'w \<Rightarrow> error option \<times> 'w"

type_synonym ('w, 'o, 'r, 't) TxActionWithResult =
  "('w, 'o, 'r) UOW \<Rightarrow> 'w \<Rightarrow> ('t option \<times> error option) outcome \<times> 'w"


section \<open>The helpers, with explicit finalisation\<close>

text \<open>
  \<^verbatim>\<open>RunTxWithResult\<close> and \<^verbatim>\<open>RunTx\<close> as in the second part of src/pgxv5/uow.go
  (package uow, lines 108 to 161). There is no \<^verbatim>\<open>defer\<close> and no \<^verbatim>\<open>recover\<close>: a
  panic of the action leaves the function at once.
\<close>

definition RunTxWithResult_joined ::
  "('w, 'o, 'r) Factory \<Rightarrow> ('w, 'o, 'r, 't) TxActionWithResult \<Rightarrow> 'o \<Rightarrow> 'w
   \<Rightarrow> ('t option \<times> error option) outcome \<times> 'w" where
  "RunTxWithResult_joined factory action options w =
     (case NewUOW factory w of
        (Inl err, w1) \<Rightarrow> (Return (None, Some err), w1)
      | (Inr uow, w1) \<Rightarrow>
          (case Begin uow options w1 of
             (Some err, w2) \<Rightarrow> (Return (None, FailedToStartTransaction (Some err)), w2)
           | (None, w2) \<Rightarrow>
               (case action uow w2 of
                  (Panic p, w3) \<Rightarrow> (Panic p, w3)
                | (Return (result, Some err), w3) \<Rightarrow>
                    (case Rollback uow w3 of
                       (Some rollbackErr, w4) \<Rightarrow>
                         (let joinedError = Join [Some err, Some rollbackErr]
                          in (Return (None, FailedToRollback joinedError), w4))
                     | (None, w4) \<Rightarrow> (Return (None, Some err), w4))
                | (Return (result, None), w3) \<Rightarrow>
                    (case Commit uow w3 of
                       (Some commitErr, w4) \<Rightarrow>
                         (Return (None, FailedToCommit (Some commitErr)), w4)
                     | (None, w4) \<Rightarrow> (Return (result, None), w4)))))"




section \<open>The helpers, with deferred finalisation\<close>

text \<open>
  \<^verbatim>\<open>RunTxWithResult\<close> and \<^verbatim>\<open>RunTx\<close> as in src/unnamed/part_002. The results
  \<^verbatim>\<open>res\<close> and \<^verbatim>\<open>err\<close> are named, and the deferred function runs after the action:
  on a panic it rolls back and panics again with the recovered value; with
  \<^verbatim>\<open>err != nil\<close> it rolls back; otherwise it assigns the result of Commit to
  \<^verbatim>\<open>err\<close>. Both rollbacks assign their error to the blank identifier.
\<close>

definition RunTxWithResult_deferred ::
  "('w, 'o, 'r) Factory \<Rightarrow> ('w, 'o, 'r, 't) TxActionWithResult \<Rightarrow> 'o \<Rightarrow> 'w
   \<Rightarrow> ('t option \<times> error option) outcome \<times> 'w" where
  "RunTxWithResult_deferred factory action options w =
     (case NewUOW factory w of
        (Inl err, w1) \<Rightarrow> (Return (None, Some err), w1)
      | (Inr uow, w1) \<Rightarrow>
          (case Begin uow options w1 of
             (Some err, w2) \<Rightarrow> (Return (None, Some err), w2)
           | (None, w2) \<Rightarrow>
               (case action uow w2 of
                  (Panic p, w3) \<Rightarrow>
                    (case Rollback uow w3 of (_, w4) \<Rightarrow> (Panic p, w4))
                | (Return (res, Some err), w3) \<Rightarrow>
                    (case Rollback uow w3 of (_, w4) \<Rightarrow> (Return (res, Some err), w4))
                | (Return (res, None), w3) \<Rightarrow>
                    (case Commit uow w3 of (err, w4) \<Rightarrow> (Return (res, err), w4)))))"


section \<open>The pgx factory (package pgxv5)\<close>

text \<open>
  The world of the pgx adapter: the driver and the \<^verbatim>\<open>pgUOW\<close> objects allocated so
  far. A \<^verbatim>\<open>*pgUOW\<close> is the position of its object in \<open>objs\<close>; calling a method
  through the pointer reads the object, runs the method and writes the object back.
  The only pointers are the ones that \<^verbatim>\<open>NewUOW\<close> hands out, each to an object it
  has just appended, so a pointer is never out of range.
\<close>

record 'r pgx_world =
  drv :: driver
  objs :: "'r pgUOW list"

definition at_obj ::
  "nat \<Rightarrow> ('r pgUOW \<times> driver \<Rightarrow> 'a \<times> 'r pgUOW \<times> driver) \<Rightarrow> 'r pgx_world \<Rightarrow> 'a \<times> 'r pgx_world" where
  "at_obj a m w =
     (case m (objs w ! a, drv w) of
        (r, u', d') \<Rightarrow> (r, w\<lparr>drv := d', objs := (objs w)[a := u']\<rparr>))"

definition pgUOW_iface :: "nat \<Rightarrow> ('r pgx_world, sql_TxOptions option, 'r) UOW" where
  "pgUOW_iface a =
     \<lparr>MustRepoRegistry = (\<lambda>w. pgUOW_MustRepoRegistry (objs w ! a)),
      Begin = (\<lambda>options. at_obj a (pgUOW_Begin options)),
      Commit = at_obj a pgUOW_Commit,
      Rollback = at_obj a pgUOW_Rollback\<rparr>"

text \<open>
  \<^verbatim>\<open>Factory.NewUOW\<close> of package pgxv5: acquire a connection from the pool, and wrap
  it in a new \<^verbatim>\<open>pgUOW\<close>. \<^verbatim>\<open>Factory.Release\<close> closes the pool and returns nil; the
  pool's closing is not a call of a transaction and is left out of the log.
\<close>

definition pgx_NewUOW ::
  "(nat \<Rightarrow> 'r) \<Rightarrow> 'r pgx_world
   \<Rightarrow> (error + ('r pgx_world, sql_TxOptions option, 'r) UOW) \<times> 'r pgx_world" where
  "pgx_NewUOW f w =
     (case native_new PoolAcquire (drv w) of
        (Inl err, d') \<Rightarrow> (Inl err, w\<lparr>drv := d'\<rparr>)
      | (Inr c, d') \<Rightarrow>
          (Inr (pgUOW_iface (length (objs w))),
           w\<lparr>drv := d', objs := objs w @ [newPgUOW c f]\<rparr>))"

definition pgx_Factory :: "(nat \<Rightarrow> 'r) \<Rightarrow> ('r pgx_world, sql_TxOptions option, 'r) Factory" where
  "pgx_Factory f = \<lparr>NewUOW = pgx_NewUOW f, Release = (\<lambda>w. (None, w))\<rparr>"

section \<open>Example inputs\<close>

text \<open>
  Two drivers that start with an empty log: one accepts every call, the other
  refuses one given call with a given error.
\<close>

definition all_ok :: driver where
  "all_ok = \<lparr>calls = [], answer = (\<lambda>h c. None)\<rparr>"

definition refusing :: "native_call \<Rightarrow> error \<Rightarrow> driver" where
  "refusing c e = \<lparr>calls = [], answer = (\<lambda>h c'. if c' = c then Some e else None)\<rparr>"

text \<open>A pgx world with no unit of work yet, whose registries are natural numbers.\<close>

definition empty_world :: "driver \<Rightarrow> nat pgx_world" where
  "empty_world d = \<lparr>drv = d, objs = []\<rparr>"

text \<open>
  Three actions: one fails after it has made a result, one succeeds, one panics.
\<close>

definition action_failing :: "('w, 'o, 'r, nat) TxActionWithResult" where
  "action_failing uow w = (Return (Some 7, Some (Opaque ''action failed'')), w)"

definition action_ok :: "('w, 'o, 'r, nat) TxActionWithResult" where
  "action_ok uow w = (Return (Some 7, None), w)"

definition action_panicking :: "('w, 'o, 'r, nat) TxActionWithResult" where
  "action_panicking uow w = (Panic (PanicString ''action panicked''), w)"

text \<open>How often the driver has been asked to release the connection \<open>c\<close>.\<close>

definition released :: "driver \<Rightarrow> nat \<Rightarrow> nat" where
  "released d c = count_list (calls d) (ConnRelease c)"

section \<open>Facts about the adapters\<close>

lemma mapSQLTxOptionsToPgx_Some:
  "mapSQLTxOptionsToPgx (Some opts) =
     \<lparr>IsoLevel =
        (if Isolation opts = sql_LevelReadUncommitted then pgx_ReadUncommitted
         else if Isolation opts = sql_LevelReadCommitted then pgx_ReadCommitted
         else if Isolation opts = sql_LevelRepeatableRead then pgx_RepeatableRead
         else if Isolation opts = sql_LevelSerializable then pgx_Serializable
         else pgx_ReadCommitted),
      AccessMode = (if ReadOnly opts then pgx_ReadOnly else pgx_ReadWrite)\<rparr>"
  by (simp add: mapSQLTxOptionsToPgx_def)

lemma mapSQLTxOptionsToPgx_None:
  "mapSQLTxOptionsToPgx None = \<lparr>IsoLevel = [], AccessMode = []\<rparr>"
  by (simp add: mapSQLTxOptionsToPgx_def)

lemmas sql_levels =
  sql_LevelDefault_def sql_LevelReadUncommitted_def sql_LevelReadCommitted_def
  sql_LevelWriteCommitted_def sql_LevelRepeatableRead_def sql_LevelSnapshot_def
  sql_LevelSerializable_def sql_LevelLinearizable_def

lemmas pgx_levels =
  pgx_Serializable_def pgx_RepeatableRead_def pgx_ReadCommitted_def pgx_ReadUncommitted_def
  pgx_ReadWrite_def pgx_ReadOnly_def

lemma pgUOW_Commit_eq:
  "pgUOW_Commit (u, d) =
     (case tx u of
        None \<Rightarrow> (Some ErrTransactionNotStarted, u, d\<lparr>calls := calls d @ [ConnRelease (conn u)]\<rparr>)
      | Some t \<Rightarrow>
          (answer d (calls d) (TxCommit t), u,
           d\<lparr>calls := calls d @ [TxCommit t, ConnRelease (conn u)]\<rparr>))"
  by (simp add: pgUOW_Commit_def native_def split: option.splits)

lemma pgUOW_Rollback_eq:
  "pgUOW_Rollback (u, d) =
     (case tx u of
        None \<Rightarrow> (Some ErrTransactionNotStarted, u, d\<lparr>calls := calls d @ [ConnRelease (conn u)]\<rparr>)
      | Some t \<Rightarrow>
          (answer d (calls d) (TxRollback t), u,
           d\<lparr>calls := calls d @ [TxRollback t, ConnRelease (conn u)]\<rparr>))"
  by (simp add: pgUOW_Rollback_def native_def split: option.splits)

lemma sqlUOW_Commit_eq:
  "sqlUOW_Commit (u, d) =
     (case sql_tx u of
        None \<Rightarrow> (Some ErrTransactionNotStarted, u, d)
      | Some t \<Rightarrow> (answer d (calls d) (TxCommit t), u, d\<lparr>calls := calls d @ [TxCommit t]\<rparr>))"
  by (simp add: sqlUOW_Commit_def native_def split: option.splits)

lemma sqlUOW_Rollback_eq:
  "sqlUOW_Rollback (u, d) =
     (case sql_tx u of
        None \<Rightarrow> (Some ErrTransactionNotStarted, u, d)
      | Some t \<Rightarrow> (answer d (calls d) (TxRollback t), u, d\<lparr>calls := calls d @ [TxRollback t]\<rparr>))"
  by (simp add: sqlUOW_Rollback_def native_def split: option.splits)

lemma pgUOW_Begin_eq:
  "pgUOW_Begin options (u, d) =
     (case answer d (calls d) (ConnBeginTx (conn u) (mapSQLTxOptionsToPgx options)) of
        Some err \<Rightarrow>
          (Some err, u,
           d\<lparr>calls := calls d @ [ConnBeginTx (conn u) (mapSQLTxOptionsToPgx options)]\<rparr>)
      | None \<Rightarrow>
          (None,
           u\<lparr>tx := Some (length (calls d)),
             repoRegistry := Some (repoRegistryFactory u (length (calls d)))\<rparr>,
           d\<lparr>calls := calls d @ [ConnBeginTx (conn u) (mapSQLTxOptionsToPgx options)]\<rparr>))"
  by (simp add: pgUOW_Begin_def native_new_def split: option.splits)

lemma sqlUOW_Begin_eq:
  "sqlUOW_Begin options (u, d) =
     (case answer d (calls d) (DBBeginTx (db u) options) of
        Some err \<Rightarrow>
          (Some (wrapError ''failed to begin transaction: '' (Some err)), u,
           d\<lparr>calls := calls d @ [DBBeginTx (db u) options]\<rparr>)
      | None \<Rightarrow>
          (None,
           u\<lparr>sql_tx := Some (length (calls d)),
             sql_repoRegistry := Some (sql_repoRegistryFactory u (length (calls d)))\<rparr>,
           d\<lparr>calls := calls d @ [DBBeginTx (db u) options]\<rparr>))"
  by (simp add: sqlUOW_Begin_def native_new_def split: option.splits)

section \<open>The isolation-level mapping\<close>

text \<open>
  Claim C7, as the code has it. For every non-nil \<^verbatim>\<open>*sql.TxOptions\<close> the mapping
  sends ReadUncommitted, ReadCommitted, RepeatableRead and Serializable to the pgx
  level of the same name, these four pgx levels are pairwise different (and so are
  the four sql levels), every other isolation level goes to pgx ReadCommitted, and
  ReadOnly goes to the pgx access mode ReadOnly when true and ReadWrite when false.
  For nil options the guard at the top of the function returns the zero
  \<^verbatim>\<open>pgx.TxOptions\<close>: neither an isolation level nor an access mode is set.
\<close>

theorem mapSQLTxOptionsToPgx_levels:
  "(Isolation opts = sql_LevelReadUncommitted \<longrightarrow>
      IsoLevel (mapSQLTxOptionsToPgx (Some opts)) = pgx_ReadUncommitted) \<and>
   (Isolation opts = sql_LevelReadCommitted \<longrightarrow>
      IsoLevel (mapSQLTxOptionsToPgx (Some opts)) = pgx_ReadCommitted) \<and>
   (Isolation opts = sql_LevelRepeatableRead \<longrightarrow>
      IsoLevel (mapSQLTxOptionsToPgx (Some opts)) = pgx_RepeatableRead) \<and>
   (Isolation opts = sql_LevelSerializable \<longrightarrow>
      IsoLevel (mapSQLTxOptionsToPgx (Some opts)) = pgx_Serializable) \<and>
   (Isolation opts \<notin> {sql_LevelReadUncommitted, sql_LevelReadCommitted,
                        sql_LevelRepeatableRead, sql_LevelSerializable} \<longrightarrow>
      IsoLevel (mapSQLTxOptionsToPgx (Some opts)) = pgx_ReadCommitted) \<and>
   AccessMode (mapSQLTxOptionsToPgx (Some opts)) =
     (if ReadOnly opts then pgx_ReadOnly else pgx_ReadWrite) \<and>
   distinct [pgx_ReadUncommitted, pgx_ReadCommitted, pgx_RepeatableRead, pgx_Serializable] \<and>
   distinct [sql_LevelReadUncommitted, sql_LevelReadCommitted,
             sql_LevelRepeatableRead, sql_LevelSerializable] \<and>
   pgx_ReadOnly \<noteq> pgx_ReadWrite \<and>
   mapSQLTxOptionsToPgx None = \<lparr>IsoLevel = [], AccessMode = []\<rparr>"
  by (simp add: mapSQLTxOptionsToPgx_Some mapSQLTxOptionsToPgx_None sql_levels pgx_levels)

theorem mapSQLTxOptionsToPgx_levels_witness:
  "mapSQLTxOptionsToPgx SerializableTxOptions =
     \<lparr>IsoLevel = ''serializable'', AccessMode = ''read write''\<rparr> \<and>
   mapSQLTxOptionsToPgx ReadOnlyTxOptions =
     \<lparr>IsoLevel = ''read committed'', AccessMode = ''read only''\<rparr> \<and>
   IsoLevel (mapSQLTxOptionsToPgx (Some \<lparr>Isolation = sql_LevelReadUncommitted, ReadOnly = False\<rparr>)) =
     ''read uncommitted'' \<and>
   IsoLevel (mapSQLTxOptionsToPgx (Some \<lparr>Isolation = sql_LevelRepeatableRead, ReadOnly = False\<rparr>)) =
     ''repeatable read'' \<and>
   IsoLevel (mapSQLTxOptionsToPgx (Some \<lparr>Isolation = sql_LevelSnapshot, ReadOnly = True\<rparr>)) =
     ''read committed'' \<and>
   IsoLevel (mapSQLTxOptionsToPgx (Some \<lparr>Isolation = sql_LevelDefault, ReadOnly = True\<rparr>)) =
     ''read committed'' \<and>
   IsoLevel (mapSQLTxOptionsToPgx (Some \<lparr>Isolation = - 3, ReadOnly = True\<rparr>)) =
     ''read committed''"
proof -
  have a: "IsoLevel (mapSQLTxOptionsToPgx SerializableTxOptions) = ''serializable''"
    using mapSQLTxOptionsToPgx_levels [of "\<lparr>Isolation = sql_LevelSerializable, ReadOnly = False\<rparr>"]
    by (simp add: SerializableTxOptions_def sql_levels pgx_levels)
  have b: "AccessMode (mapSQLTxOptionsToPgx SerializableTxOptions) = ''read write''"
    using mapSQLTxOptionsToPgx_levels [of "\<lparr>Isolation = sql_LevelSerializable, ReadOnly = False\<rparr>"]
    by (simp add: SerializableTxOptions_def sql_levels pgx_levels)
  have c: "IsoLevel (mapSQLTxOptionsToPgx ReadOnlyTxOptions) = ''read committed''"
    using mapSQLTxOptionsToPgx_levels [of "\<lparr>Isolation = sql_LevelReadCommitted, ReadOnly = True\<rparr>"]
    by (simp add: ReadOnlyTxOptions_def sql_levels pgx_levels)
  have d: "AccessMode (mapSQLTxOptionsToPgx ReadOnlyTxOptions) = ''read only''"
    using mapSQLTxOptionsToPgx_levels [of "\<lparr>Isolation = sql_LevelReadCommitted, ReadOnly = True\<rparr>"]
    by (simp add: ReadOnlyTxOptions_def sql_levels pgx_levels)
  have e: "IsoLevel (mapSQLTxOptionsToPgx (Some \<lparr>Isolation = sql_LevelReadUncommitted, ReadOnly = False\<rparr>)) =
     ''read uncommitted''"
    using mapSQLTxOptionsToPgx_levels [of "\<lparr>Isolation = sql_LevelReadUncommitted, ReadOnly = False\<rparr>"]
    by (simp add: sql_levels pgx_levels)
  have f: "IsoLevel (mapSQLTxOptionsToPgx (Some \<lparr>Isolation = sql_LevelRepeatableRead, ReadOnly = False\<rparr>)) =
     ''repeatable read''"
    using mapSQLTxOptionsToPgx_levels [of "\<lparr>Isolation = sql_LevelRepeatableRead, ReadOnly = False\<rparr>"]
    by (simp add: sql_levels pgx_levels)
  have g: "IsoLevel (mapSQLTxOptionsToPgx (Some \<lparr>Isolation = sql_LevelSnapshot, ReadOnly = True\<rparr>)) =
     ''read committed''"
    using mapSQLTxOptionsToPgx_levels [of "\<lparr>Isolation = sql_LevelSnapshot, ReadOnly = True\<rparr>"]
    by (simp add: sql_levels pgx_levels)
  have h: "IsoLevel (mapSQLTxOptionsToPgx (Some \<lparr>Isolation = sql_LevelDefault, ReadOnly = True\<rparr>)) =
     ''read committed''"
    using mapSQLTxOptionsToPgx_levels [of "\<lparr>Isolation = sql_LevelDefault, ReadOnly = True\<rparr>"]
    by (simp add: sql_levels pgx_levels)
  have i: "IsoLevel (mapSQLTxOptionsToPgx (Some \<lparr>Isolation = - 3, ReadOnly = True\<rparr>)) =
     ''read committed''"
    using mapSQLTxOptionsToPgx_levels [of "\<lparr>Isolation = - 3, ReadOnly = True\<rparr>"]
    by (simp add: sql_levels pgx_levels)
  have j: "\<And>r. r = \<lparr>IsoLevel = IsoLevel r, AccessMode = AccessMode r\<rparr>"
    by simp
  show ?thesis
    using a b c d e f g h i
      j [of "mapSQLTxOptionsToPgx SerializableTxOptions"]
      j [of "mapSQLTxOptionsToPgx ReadOnlyTxOptions"]
    by simp
qed

text \<open>
  Claim C7 as stated fails at the unspecified input, nil: the level returned is
  not pgx ReadCommitted, and the access mode is neither ReadWrite nor ReadOnly.
\<close>

theorem mapSQLTxOptionsToPgx_nil_counterexample:
  "IsoLevel (mapSQLTxOptionsToPgx None) \<noteq> pgx_ReadCommitted \<and>
   AccessMode (mapSQLTxOptionsToPgx None) \<noteq> pgx_ReadWrite \<and>
   AccessMode (mapSQLTxOptionsToPgx None) \<noteq> pgx_ReadOnly"
  by (simp add: mapSQLTxOptionsToPgx_None pgx_levels)

section \<open>Commit and Rollback of the pgx adapter release the connection\<close>

text \<open>
  Claim C10. Every call of Commit or Rollback on a \<^verbatim>\<open>pgUOW\<close> asks the driver
  exactly once to release the connection of that unit of work, as the last call,
  whatever the state of the unit of work and whatever the native commit or
  rollback answers: with no transaction begun the release is the only call and the
  result is \<^verbatim>\<open>ErrTransactionNotStarted\<close>; with a transaction the native call comes
  first and its answer (an error or nil) is the result. No other connection is
  released.
\<close>

theorem pgUOW_release_exactly_once:
  "calls (snd (snd (pgUOW_Commit (u, d)))) =
     calls d @ (case tx u of None \<Rightarrow> [] | Some t \<Rightarrow> [TxCommit t]) @ [ConnRelease (conn u)] \<and>
   calls (snd (snd (pgUOW_Rollback (u, d)))) =
     calls d @ (case tx u of None \<Rightarrow> [] | Some t \<Rightarrow> [TxRollback t]) @ [ConnRelease (conn u)] \<and>
   released (snd (snd (pgUOW_Commit (u, d)))) c =
     released d c + (if c = conn u then 1 else 0) \<and>
   released (snd (snd (pgUOW_Rollback (u, d)))) c =
     released d c + (if c = conn u then 1 else 0) \<and>
   fst (pgUOW_Commit (u, d)) =
     (case tx u of
        None \<Rightarrow> Some ErrTransactionNotStarted
      | Some t \<Rightarrow> answer d (calls d) (TxCommit t)) \<and>
   fst (pgUOW_Rollback (u, d)) =
     (case tx u of
        None \<Rightarrow> Some ErrTransactionNotStarted
      | Some t \<Rightarrow> answer d (calls d) (TxRollback t))"
  by (simp add: pgUOW_Commit_eq pgUOW_Rollback_eq released_def split: option.splits)

section \<open>A unit of work that was never begun\<close>



section \<open>Commit or Rollback a second time\<close>

text \<open>
  Claim C5, as the code has it. Neither adapter keeps a terminal state: Commit and
  Rollback leave the object as it is, the transaction handle stays stored, and the
  only guard is the test for the nil handle. On a unit of work that holds a
  transaction, each call of Commit or Rollback therefore calls the native
  transaction again and returns what the native transaction answers: two calls in
  a row issue two native calls (and, in the pgx adapter, two releases of the
  connection). Whether the second call is refused is left to the driver.
\<close>

theorem finalise_twice_calls_native_twice:
  "(sql_tx v = Some t \<longrightarrow>
      sqlUOW_Commit (v, d) =
        (answer d (calls d) (TxCommit t), v, d\<lparr>calls := calls d @ [TxCommit t]\<rparr>) \<and>
      sqlUOW_Rollback (v, d) =
        (answer d (calls d) (TxRollback t), v, d\<lparr>calls := calls d @ [TxRollback t]\<rparr>) \<and>
      calls (snd (snd (sqlUOW_Commit (snd (sqlUOW_Commit (v, d)))))) =
        calls d @ [TxCommit t, TxCommit t] \<and>
      calls (snd (snd (sqlUOW_Rollback (snd (sqlUOW_Rollback (v, d)))))) =
        calls d @ [TxRollback t, TxRollback t] \<and>
      calls (snd (snd (sqlUOW_Rollback (snd (sqlUOW_Commit (v, d)))))) =
        calls d @ [TxCommit t, TxRollback t] \<and>
      calls (snd (snd (sqlUOW_Commit (snd (sqlUOW_Rollback (v, d)))))) =
        calls d @ [TxRollback t, TxCommit t]) \<and>
   (tx u = Some t \<longrightarrow>
      pgUOW_Commit (u, d) =
        (answer d (calls d) (TxCommit t), u,
         d\<lparr>calls := calls d @ [TxCommit t, ConnRelease (conn u)]\<rparr>) \<and>
      pgUOW_Rollback (u, d) =
        (answer d (calls d) (TxRollback t), u,
         d\<lparr>calls := calls d @ [TxRollback t, ConnRelease (conn u)]\<rparr>) \<and>
      calls (snd (snd (pgUOW_Commit (snd (pgUOW_Commit (u, d)))))) =
        calls d @ [TxCommit t, ConnRelease (conn u), TxCommit t, ConnRelease (conn u)] \<and>
      calls (snd (snd (pgUOW_Rollback (snd (pgUOW_Rollback (u, d)))))) =
        calls d @ [TxRollback t, ConnRelease (conn u), TxRollback t, ConnRelease (conn u)] \<and>
      calls (snd (snd (pgUOW_Rollback (snd (pgUOW_Commit (u, d)))))) =
        calls d @ [TxCommit t, ConnRelease (conn u), TxRollback t, ConnRelease (conn u)] \<and>
      calls (snd (snd (pgUOW_Commit (snd (pgUOW_Rollback (u, d)))))) =
        calls d @ [TxRollback t, ConnRelease (conn u), TxCommit t, ConnRelease (conn u)])"
  by (simp add: sqlUOW_Commit_eq sqlUOW_Rollback_eq pgUOW_Commit_eq pgUOW_Rollback_eq)

theorem finalise_twice_calls_native_twice_witness:
  "sql_tx (fst (snd (sqlUOW_Begin None (newSQLUOW 0 id :: nat sqlUOW, all_ok)))) = Some 0 \<and>
   calls (snd (snd (sqlUOW_Rollback (snd (sqlUOW_Rollback
      (snd (sqlUOW_Begin None (newSQLUOW 0 id :: nat sqlUOW, all_ok)))))))) =
     [DBBeginTx 0 None, TxRollback 0, TxRollback 0] \<and>
   tx (fst (snd (pgUOW_Begin None (newPgUOW 0 id :: nat pgUOW, all_ok)))) = Some 0 \<and>
   calls (snd (snd (pgUOW_Commit (snd (pgUOW_Commit
      (snd (pgUOW_Begin None (newPgUOW 0 id :: nat pgUOW, all_ok)))))))) =
     [ConnBeginTx 0 \<lparr>IsoLevel = [], AccessMode = []\<rparr>,
      TxCommit 0, ConnRelease 0, TxCommit 0, ConnRelease 0]"
proof -
  let ?v = "\<lparr>sql_tx = Some 0, sql_repoRegistry = Some (0::nat), db = 0,
             sql_repoRegistryFactory = id\<rparr>"
  let ?u = "\<lparr>tx = Some 0, repoRegistry = Some (0::nat), conn = 0, repoRegistryFactory = id\<rparr>"
  let ?ds = "all_ok\<lparr>calls := [DBBeginTx 0 None]\<rparr>"
  let ?dp = "all_ok\<lparr>calls := [ConnBeginTx 0 \<lparr>IsoLevel = [], AccessMode = []\<rparr>]\<rparr>"
  have s: "sqlUOW_Begin None (newSQLUOW 0 id :: nat sqlUOW, all_ok) = (None, ?v, ?ds)"
    by (simp add: sqlUOW_Begin_eq newSQLUOW_def all_ok_def)
  have p: "pgUOW_Begin None (newPgUOW 0 id :: nat pgUOW, all_ok) = (None, ?u, ?dp)"
    by (simp add: pgUOW_Begin_eq newPgUOW_def all_ok_def mapSQLTxOptionsToPgx_None)
  have v: "sql_tx ?v = Some 0" and u: "tx ?u = Some 0"
    by simp_all
  have "calls (snd (snd (sqlUOW_Rollback (snd (sqlUOW_Rollback (?v, ?ds)))))) =
          calls ?ds @ [TxRollback 0, TxRollback 0]"
    using finalise_twice_calls_native_twice [of ?v 0 ?ds ?u] v by blast
  moreover
  have "calls (snd (snd (pgUOW_Commit (snd (pgUOW_Commit (?u, ?dp)))))) =
          calls ?dp @ [TxCommit 0, ConnRelease (conn ?u), TxCommit 0, ConnRelease (conn ?u)]"
    using finalise_twice_calls_native_twice [of ?v 0 ?dp ?u] u by blast
  ultimately show ?thesis
    by (simp add: s p)
qed

text \<open>
  Claim C5 as stated fails: after a Begin and a Commit on the database/sql adapter
  a second Commit, and likewise a Rollback, reaches the native transaction again.
\<close>

theorem second_commit_counterexample:
  "calls (snd (snd (sqlUOW_Commit (snd (sqlUOW_Commit
      (snd (sqlUOW_Begin None (newSQLUOW 0 id :: nat sqlUOW, all_ok)))))))) =
     [DBBeginTx 0 None, TxCommit 0, TxCommit 0] \<and>
   calls (snd (snd (sqlUOW_Rollback (snd (sqlUOW_Commit
      (snd (sqlUOW_Begin None (newSQLUOW 0 id :: nat sqlUOW, all_ok)))))))) =
     [DBBeginTx 0 None, TxCommit 0, TxRollback 0] \<and>
   calls (snd (snd (pgUOW_Rollback (snd (pgUOW_Rollback
      (snd (pgUOW_Begin None (newPgUOW 0 id :: nat pgUOW, all_ok)))))))) =
     [ConnBeginTx 0 \<lparr>IsoLevel = [], AccessMode = []\<rparr>,
      TxRollback 0, ConnRelease 0, TxRollback 0, ConnRelease 0]"
  by (simp add: sqlUOW_Begin_eq sqlUOW_Commit_eq sqlUOW_Rollback_eq pgUOW_Begin_eq
      pgUOW_Rollback_eq newSQLUOW_def newPgUOW_def all_ok_def mapSQLTxOptionsToPgx_None)

section \<open>Begin a second time\<close>

text \<open>
  Claim C6, as the code has it. Begin of either adapter does not look at the
  stored transaction: whatever the state of the unit of work, it asks the driver
  for a new transaction; when the driver grants it, Begin returns nil and stores
  the new handle and a new registry over the old ones; when the driver refuses,
  Begin returns the driver's error (the database/sql adapter wraps it) and leaves
  the object as it was. A second Begin is rejected only when the driver rejects it.
\<close>

theorem begin_ignores_state:
  "(answer d (calls d) (ConnBeginTx (conn u) (mapSQLTxOptionsToPgx options)) = None \<longrightarrow>
      pgUOW_Begin options (u, d) =
        (None,
         u\<lparr>tx := Some (length (calls d)),
           repoRegistry := Some (repoRegistryFactory u (length (calls d)))\<rparr>,
         d\<lparr>calls := calls d @ [ConnBeginTx (conn u) (mapSQLTxOptionsToPgx options)]\<rparr>)) \<and>
   (answer d (calls d) (ConnBeginTx (conn u) (mapSQLTxOptionsToPgx options)) = Some err \<longrightarrow>
      pgUOW_Begin options (u, d) =
        (Some err, u,
         d\<lparr>calls := calls d @ [ConnBeginTx (conn u) (mapSQLTxOptionsToPgx options)]\<rparr>)) \<and>
   (answer d (calls d) (DBBeginTx (db v) options) = None \<longrightarrow>
      sqlUOW_Begin options (v, d) =
        (None,
         v\<lparr>sql_tx := Some (length (calls d)),
           sql_repoRegistry := Some (sql_repoRegistryFactory v (length (calls d)))\<rparr>,
         d\<lparr>calls := calls d @ [DBBeginTx (db v) options]\<rparr>)) \<and>
   (answer d (calls d) (DBBeginTx (db v) options) = Some err \<longrightarrow>
      sqlUOW_Begin options (v, d) =
        (Some (wrapError ''failed to begin transaction: '' (Some err)), v,
         d\<lparr>calls := calls d @ [DBBeginTx (db v) options]\<rparr>))"
  by (simp add: pgUOW_Begin_eq sqlUOW_Begin_eq)

theorem begin_ignores_state_witness:
  "pgUOW_Begin None
     (\<lparr>tx = Some 0, repoRegistry = Some (0::nat), conn = 0, repoRegistryFactory = id\<rparr>,
      all_ok\<lparr>calls := [ConnBeginTx 0 \<lparr>IsoLevel = [], AccessMode = []\<rparr>]\<rparr>) =
     (None,
      \<lparr>tx = Some 1, repoRegistry = Some 1, conn = 0, repoRegistryFactory = id\<rparr>,
      all_ok\<lparr>calls := [ConnBeginTx 0 \<lparr>IsoLevel = [], AccessMode = []\<rparr>,
                         ConnBeginTx 0 \<lparr>IsoLevel = [], AccessMode = []\<rparr>]\<rparr>) \<and>
   sqlUOW_Begin None
     (\<lparr>sql_tx = Some 0, sql_repoRegistry = Some (0::nat), db = 0, sql_repoRegistryFactory = id\<rparr>,
      (refusing (DBBeginTx 0 None) (Opaque ''busy''))\<lparr>calls := [DBBeginTx 0 None]\<rparr>) =
     (Some (wrapError ''failed to begin transaction: '' (Some (Opaque ''busy''))),
      \<lparr>sql_tx = Some 0, sql_repoRegistry = Some 0, db = 0, sql_repoRegistryFactory = id\<rparr>,
      (refusing (DBBeginTx 0 None) (Opaque ''busy''))\<lparr>calls := [DBBeginTx 0 None, DBBeginTx 0 None]\<rparr>)"
  using
    begin_ignores_state
      [of "all_ok\<lparr>calls := [ConnBeginTx 0 \<lparr>IsoLevel = [], AccessMode = []\<rparr>]\<rparr>"
          "\<lparr>tx = Some 0, repoRegistry = Some (0::nat), conn = 0, repoRegistryFactory = id\<rparr>"
          None "Opaque ''busy''"
          "\<lparr>sql_tx = Some 0, sql_repoRegistry = Some (0::nat), db = 0, sql_repoRegistryFactory = id\<rparr>"]
    begin_ignores_state
      [of "(refusing (DBBeginTx 0 None) (Opaque ''busy''))\<lparr>calls := [DBBeginTx 0 None]\<rparr>"
          "\<lparr>tx = Some 0, repoRegistry = Some (0::nat), conn = 0, repoRegistryFactory = id\<rparr>"
          None "Opaque ''busy''"
          "\<lparr>sql_tx = Some 0, sql_repoRegistry = Some (0::nat), db = 0, sql_repoRegistryFactory = id\<rparr>"]
  by (simp add: all_ok_def refusing_def mapSQLTxOptionsToPgx_None)

text \<open>
  Claim C6 as stated fails: on a unit of work whose first Begin succeeded, a second
  Begin returns nil and replaces the stored handle, in both adapters.
\<close>

theorem second_begin_counterexample:
  "sql_tx (fst (snd (sqlUOW_Begin None (newSQLUOW 0 id :: nat sqlUOW, all_ok)))) = Some 0 \<and>
   fst (sqlUOW_Begin None (snd (sqlUOW_Begin None (newSQLUOW 0 id :: nat sqlUOW, all_ok)))) = None \<and>
   sql_tx (fst (snd (sqlUOW_Begin None
      (snd (sqlUOW_Begin None (newSQLUOW 0 id :: nat sqlUOW, all_ok)))))) = Some 1 \<and>
   tx (fst (snd (pgUOW_Begin None (newPgUOW 0 id :: nat pgUOW, all_ok)))) = Some 0 \<and>
   fst (pgUOW_Begin None (snd (pgUOW_Begin None (newPgUOW 0 id :: nat pgUOW, all_ok)))) = None \<and>
   tx (fst (snd (pgUOW_Begin None
      (snd (pgUOW_Begin None (newPgUOW 0 id :: nat pgUOW, all_ok)))))) = Some 1"
  by (simp add: sqlUOW_Begin_eq pgUOW_Begin_eq newSQLUOW_def newPgUOW_def all_ok_def)

section \<open>Facts about the helpers\<close>

lemma Join_two: "Join [Some a, Some b] = Some (joinError [a, b])"
  by (simp add: Join_def)

lemma RunTxWithResult_joined_begun:
  assumes "NewUOW factory w = (Inr uow, w1)" and "Begin uow options w1 = (None, w2)"
  shows "RunTxWithResult_joined factory action options w =
     (case action uow w2 of
        (Panic p, w3) \<Rightarrow> (Panic p, w3)
      | (Return (result, Some err), w3) \<Rightarrow>
          (case Rollback uow w3 of
             (Some rollbackErr, w4) \<Rightarrow>
               (Return (None, Some (FailedToRollbackError (Some (joinError [err, rollbackErr])))), w4)
           | (None, w4) \<Rightarrow> (Return (None, Some err), w4))
      | (Return (result, None), w3) \<Rightarrow>
          (case Commit uow w3 of
             (Some commitErr, w4) \<Rightarrow>
               (Return (None, Some (FailedToCommitError (Some commitErr))), w4)
           | (None, w4) \<Rightarrow> (Return (result, None), w4)))"
  using assms
  by (simp add: RunTxWithResult_joined_def Join_two FailedToRollback_def FailedToCommit_def
      split: prod.splits outcome.splits option.splits)

lemma RunTxWithResult_deferred_begun:
  assumes "NewUOW factory w = (Inr uow, w1)" and "Begin uow options w1 = (None, w2)"
  shows "RunTxWithResult_deferred factory action options w =
     (case action uow w2 of
        (Panic p, w3) \<Rightarrow> (Panic p, snd (Rollback uow w3))
      | (Return (res, Some err), w3) \<Rightarrow> (Return (res, Some err), snd (Rollback uow w3))
      | (Return (res, None), w3) \<Rightarrow> (Return (res, fst (Commit uow w3)), snd (Commit uow w3)))"
  using assms
  by (simp add: RunTxWithResult_deferred_def split: prod.splits outcome.splits option.splits)

text \<open>The pgx factory and the methods behind its interface, on an explicit world.\<close>

lemma pgx_NewUOW_eq:
  "NewUOW (pgx_Factory f) \<lparr>drv = d, objs = os\<rparr> =
     (case answer d (calls d) PoolAcquire of
        Some err \<Rightarrow> (Inl err, \<lparr>drv = d\<lparr>calls := calls d @ [PoolAcquire]\<rparr>, objs = os\<rparr>)
      | None \<Rightarrow>
          (Inr (pgUOW_iface (length os)),
           \<lparr>drv = d\<lparr>calls := calls d @ [PoolAcquire]\<rparr>,
            objs = os @ [newPgUOW (length (calls d)) f]\<rparr>))"
  by (simp add: pgx_Factory_def pgx_NewUOW_def native_new_def split: option.splits)

lemma pgx_Begin_eq:
  "Begin (pgUOW_iface a) options \<lparr>drv = d, objs = os\<rparr> =
     (case pgUOW_Begin options (os ! a, d) of
        (r, u', d') \<Rightarrow> (r, \<lparr>drv = d', objs = os[a := u']\<rparr>))"
  by (simp add: pgUOW_iface_def at_obj_def)

lemma pgx_Commit_eq:
  "Commit (pgUOW_iface a) \<lparr>drv = d, objs = os\<rparr> =
     (case pgUOW_Commit (os ! a, d) of
        (r, u', d') \<Rightarrow> (r, \<lparr>drv = d', objs = os[a := u']\<rparr>))"
  by (simp add: pgUOW_iface_def at_obj_def)

lemma pgx_Rollback_eq:
  "Rollback (pgUOW_iface a) \<lparr>drv = d, objs = os\<rparr> =
     (case pgUOW_Rollback (os ! a, d) of
        (r, u', d') \<Rightarrow> (r, \<lparr>drv = d', objs = os[a := u']\<rparr>))"
  by (simp add: pgUOW_iface_def at_obj_def)

lemmas pgx_run =
  pgx_NewUOW_eq pgx_Begin_eq pgx_Commit_eq pgx_Rollback_eq
  pgUOW_Begin_eq pgUOW_Commit_eq pgUOW_Rollback_eq
  empty_world_def newPgUOW_def mapSQLTxOptionsToPgx_None

text \<open>
  A run on the empty pgx world up to the action, for a driver with an empty log
  that grants the connection and the transaction: the connection is handle 0 and
  the transaction handle 1.
\<close>

lemma pgx_acquired:
  assumes "calls d = []" and "answer d [] PoolAcquire = None"
  shows "NewUOW (pgx_Factory f) (empty_world d) =
     (Inr (pgUOW_iface 0), \<lparr>drv = d\<lparr>calls := [PoolAcquire]\<rparr>, objs = [newPgUOW 0 f]\<rparr>)"
  using assms by (simp add: pgx_NewUOW_eq empty_world_def)

lemma pgx_begun:
  assumes "answer d [PoolAcquire] (ConnBeginTx 0 \<lparr>IsoLevel = [], AccessMode = []\<rparr>) = None"
  shows "Begin (pgUOW_iface 0) None \<lparr>drv = d\<lparr>calls := [PoolAcquire]\<rparr>, objs = [newPgUOW 0 f]\<rparr> =
     (None,
      \<lparr>drv = d\<lparr>calls := [PoolAcquire, ConnBeginTx 0 \<lparr>IsoLevel = [], AccessMode = []\<rparr>]\<rparr>,
       objs = [\<lparr>tx = Some 1, repoRegistry = Some (f 1), conn = 0, repoRegistryFactory = f\<rparr>]\<rparr>)"
  using assms
  by (simp add: pgx_Begin_eq pgUOW_Begin_eq newPgUOW_def mapSQLTxOptionsToPgx_None)

section \<open>The action returns an error\<close>

text \<open>
  Claim C1, as the code has it. Let Begin have succeeded and the action return a
  non-nil error \<open>err\<close> in the world \<open>w3\<close>. Both versions of
  \<^verbatim>\<open>RunTxWithResult\<close> then call Rollback once, on \<open>w3\<close>, call no Commit, and end in
  the world that this one Rollback leaves. The version with explicit finalisation
  returns no result and the action's error unchanged when the rollback succeeds,
  and \<^verbatim>\<open>FailedToRollback\<close> of the join of the action's error and the rollback's
  error when the rollback fails. The version with deferred finalisation assigns
  the rollback's error to the blank identifier: it returns what the action
  returned, result and error, whether the rollback fails or not.
\<close>

theorem rollback_on_action_error:
  assumes "NewUOW factory w = (Inr uow, w1)"
    and "Begin uow options w1 = (None, w2)"
    and "action uow w2 = (Return (res, Some err), w3)"
    and "Rollback uow w3 = (rollbackErr, w4)"
  shows "RunTxWithResult_joined factory action options w =
           (Return (None,
              (case rollbackErr of
                 None \<Rightarrow> Some err
               | Some re \<Rightarrow> Some (FailedToRollbackError (Some (joinError [err, re]))))),
            w4) \<and>
         RunTxWithResult_deferred factory action options w = (Return (res, Some err), w4)"
  by (simp add: RunTxWithResult_joined_begun [OF assms(1,2)]
      RunTxWithResult_deferred_begun [OF assms(1,2)] assms(3,4) split: option.splits)

theorem rollback_on_action_error_witness:
  "RunTxWithResult_joined (pgx_Factory id) action_failing None
     (empty_world (refusing (TxRollback 1) (Opaque ''rollback failed''))) =
     (Return (None, Some (FailedToRollbackError
        (Some (joinError [Opaque ''action failed'', Opaque ''rollback failed''])))),
      \<lparr>drv = (refusing (TxRollback 1) (Opaque ''rollback failed''))
               \<lparr>calls := [PoolAcquire, ConnBeginTx 0 \<lparr>IsoLevel = [], AccessMode = []\<rparr>,
                          TxRollback 1, ConnRelease 0]\<rparr>,
       objs = [\<lparr>tx = Some 1, repoRegistry = Some 1, conn = 0, repoRegistryFactory = id\<rparr>]\<rparr>) \<and>
   RunTxWithResult_deferred (pgx_Factory id) action_failing None
     (empty_world (refusing (TxRollback 1) (Opaque ''rollback failed''))) =
     (Return (Some 7, Some (Opaque ''action failed'')),
      \<lparr>drv = (refusing (TxRollback 1) (Opaque ''rollback failed''))
               \<lparr>calls := [PoolAcquire, ConnBeginTx 0 \<lparr>IsoLevel = [], AccessMode = []\<rparr>,
                          TxRollback 1, ConnRelease 0]\<rparr>,
       objs = [\<lparr>tx = Some 1, repoRegistry = Some 1, conn = 0, repoRegistryFactory = id\<rparr>]\<rparr>) \<and>
   Error (FailedToRollbackError
        (Some (joinError [Opaque ''action failed'', Opaque ''rollback failed'']))) =
     ''failed to rollback transaction: action failed'' @ [CHR 0x0A] @ ''rollback failed''"
proof -
  let ?d = "refusing (TxRollback 1) (Opaque ''rollback failed'')"
  let ?z = "\<lparr>IsoLevel = [], AccessMode = []\<rparr>"
  let ?w1 = "\<lparr>drv = ?d\<lparr>calls := [PoolAcquire]\<rparr>, objs = [newPgUOW 0 (id :: nat \<Rightarrow> nat)]\<rparr>"
  let ?w2 = "\<lparr>drv = ?d\<lparr>calls := [PoolAcquire, ConnBeginTx 0 ?z]\<rparr>,
              objs = [\<lparr>tx = Some 1, repoRegistry = Some (id (1::nat)), conn = 0,
                       repoRegistryFactory = id\<rparr>]\<rparr>"
  let ?w4 = "\<lparr>drv = ?d\<lparr>calls := [PoolAcquire, ConnBeginTx 0 ?z, TxRollback 1, ConnRelease 0]\<rparr>,
              objs = [\<lparr>tx = Some 1, repoRegistry = Some (id (1::nat)), conn = 0,
                       repoRegistryFactory = id\<rparr>]\<rparr>"
  have h1: "NewUOW (pgx_Factory id) (empty_world ?d) = (Inr (pgUOW_iface 0), ?w1)"
    by (rule pgx_acquired) (simp_all add: refusing_def)
  have h2: "Begin (pgUOW_iface 0) None ?w1 = (None, ?w2)"
    by (rule pgx_begun) (simp add: refusing_def)
  have h3: "action_failing (pgUOW_iface 0) ?w2 =
              (Return (Some 7, Some (Opaque ''action failed'')), ?w2)"
    by (simp add: action_failing_def)
  have h4: "Rollback (pgUOW_iface 0) ?w2 = (Some (Opaque ''rollback failed''), ?w4)"
    by (simp add: pgx_Rollback_eq pgUOW_Rollback_eq refusing_def)
  show ?thesis
    using rollback_on_action_error [where action = action_failing, OF h1 h2 h3 h4] by simp
qed

text \<open>
  Claim C1 as stated fails for the version with deferred finalisation: the action
  fails, the rollback fails as well (the version with explicit finalisation
  reports it on the same input), and the helper returns the action's error alone.
\<close>

theorem rollback_error_dropped_counterexample:
  "fst (RunTxWithResult_deferred (pgx_Factory id) action_failing None
          (empty_world (refusing (TxRollback 1) (Opaque ''rollback failed'')))) =
     Return (Some 7, Some (Opaque ''action failed'')) \<and>
   fst (RunTxWithResult_joined (pgx_Factory id) action_failing None
          (empty_world (refusing (TxRollback 1) (Opaque ''rollback failed'')))) =
     Return (None, Some (FailedToRollbackError
        (Some (joinError [Opaque ''action failed'', Opaque ''rollback failed'']))))"
  by (simp add: RunTxWithResult_deferred_def RunTxWithResult_joined_def pgx_run refusing_def
      action_failing_def Join_two FailedToRollback_def)

section \<open>The action panics\<close>

text \<open>
  Claim C2, as the code has it. Let Begin have succeeded and the action panic with
  the value \<open>p\<close> in the world \<open>w3\<close>. The version of \<^verbatim>\<open>RunTxWithResult\<close> with
  deferred finalisation recovers the panic, calls Rollback once, on \<open>w3\<close>, drops
  the error of that rollback, calls no Commit and panics again with \<open>p\<close>. The
  version with explicit finalisation has no deferred function: the panic \<open>p\<close>
  leaves it at once, in the world \<open>w3\<close>, and neither Rollback nor Commit is called.
\<close>

theorem panic_of_action:
  assumes "NewUOW factory w = (Inr uow, w1)"
    and "Begin uow options w1 = (None, w2)"
    and "action uow w2 = (Panic p, w3)"
    and "Rollback uow w3 = (rollbackErr, w4)"
  shows "RunTxWithResult_deferred factory action options w = (Panic p, w4) \<and>
         RunTxWithResult_joined factory action options w = (Panic p, w3)"
  by (simp add: RunTxWithResult_joined_begun [OF assms(1,2)]
      RunTxWithResult_deferred_begun [OF assms(1,2)] assms(3,4))

theorem panic_of_action_witness:
  "RunTxWithResult_deferred (pgx_Factory id) action_panicking None
     (empty_world (refusing (TxRollback 1) (Opaque ''rollback failed''))) =
     (Panic (PanicString ''action panicked''),
      \<lparr>drv = (refusing (TxRollback 1) (Opaque ''rollback failed''))
               \<lparr>calls := [PoolAcquire, ConnBeginTx 0 \<lparr>IsoLevel = [], AccessMode = []\<rparr>,
                          TxRollback 1, ConnRelease 0]\<rparr>,
       objs = [\<lparr>tx = Some 1, repoRegistry = Some 1, conn = 0, repoRegistryFactory = id\<rparr>]\<rparr>) \<and>
   RunTxWithResult_joined (pgx_Factory id) action_panicking None
     (empty_world (refusing (TxRollback 1) (Opaque ''rollback failed''))) =
     (Panic (PanicString ''action panicked''),
      \<lparr>drv = (refusing (TxRollback 1) (Opaque ''rollback failed''))
               \<lparr>calls := [PoolAcquire, ConnBeginTx 0 \<lparr>IsoLevel = [], AccessMode = []\<rparr>]\<rparr>,
       objs = [\<lparr>tx = Some 1, repoRegistry = Some 1, conn = 0, repoRegistryFactory = id\<rparr>]\<rparr>)"
proof -
  let ?d = "refusing (TxRollback 1) (Opaque ''rollback failed'')"
  let ?z = "\<lparr>IsoLevel = [], AccessMode = []\<rparr>"
  let ?w1 = "\<lparr>drv = ?d\<lparr>calls := [PoolAcquire]\<rparr>, objs = [newPgUOW 0 (id :: nat \<Rightarrow> nat)]\<rparr>"
  let ?w2 = "\<lparr>drv = ?d\<lparr>calls := [PoolAcquire, ConnBeginTx 0 ?z]\<rparr>,
              objs = [\<lparr>tx = Some 1, repoRegistry = Some (id (1::nat)), conn = 0,
                       repoRegistryFactory = id\<rparr>]\<rparr>"
  let ?w4 = "\<lparr>drv = ?d\<lparr>calls := [PoolAcquire, ConnBeginTx 0 ?z, TxRollback 1, ConnRelease 0]\<rparr>,
              objs = [\<lparr>tx = Some 1, repoRegistry = Some (id (1::nat)), conn = 0,
                       repoRegistryFactory = id\<rparr>]\<rparr>"
  have h1: "NewUOW (pgx_Factory id) (empty_world ?d) = (Inr (pgUOW_iface 0), ?w1)"
    by (rule pgx_acquired) (simp_all add: refusing_def)
  have h2: "Begin (pgUOW_iface 0) None ?w1 = (None, ?w2)"
    by (rule pgx_begun) (simp add: refusing_def)
  have h3: "(action_panicking :: (nat pgx_world, sql_TxOptions option, nat, nat) TxActionWithResult)
              (pgUOW_iface 0) ?w2 = (Panic (PanicString ''action panicked''), ?w2)"
    by (simp add: action_panicking_def)
  have h4: "Rollback (pgUOW_iface 0) ?w2 = (Some (Opaque ''rollback failed''), ?w4)"
    by (simp add: pgx_Rollback_eq pgUOW_Rollback_eq refusing_def)
  show ?thesis
    using panic_of_action [where action = action_panicking, OF h1 h2 h3 h4] by simp
qed

text \<open>
  Claim C2 as stated fails for the version with explicit finalisation: the action
  panics after a successful Begin, and the helper ends with the transaction
  neither rolled back nor committed (and the connection not released).
\<close>

theorem panic_without_rollback_counterexample:
  "fst (RunTxWithResult_joined (pgx_Factory id) action_panicking None (empty_world all_ok)) =
     Panic (PanicString ''action panicked'') \<and>
   calls (drv (snd (RunTxWithResult_joined (pgx_Factory id) action_panicking None
                      (empty_world all_ok)))) =
     [PoolAcquire, ConnBeginTx 0 \<lparr>IsoLevel = [], AccessMode = []\<rparr>]"
  by (simp add: RunTxWithResult_joined_def pgx_run all_ok_def action_panicking_def)

section \<open>The action succeeds\<close>

text \<open>
  Claim C3, as the code has it. Let Begin have succeeded and the action return a
  result \<open>res\<close> with a nil error in the world \<open>w3\<close>. Both versions of
  \<^verbatim>\<open>RunTxWithResult\<close> then call Commit once, on \<open>w3\<close>, call no Rollback, and end in
  the world that this one Commit leaves; when the commit succeeds both return
  \<open>res\<close> unchanged with a nil error. When the commit fails, the version with
  explicit finalisation returns no result and \<^verbatim>\<open>FailedToCommit\<close> of the commit's
  error; the version with deferred finalisation assigns the commit's error to its
  named result \<^verbatim>\<open>err\<close> and returns it as it is, together with the action's
  result \<open>res\<close>.
\<close>

theorem commit_on_success:
  assumes "NewUOW factory w = (Inr uow, w1)"
    and "Begin uow options w1 = (None, w2)"
    and "action uow w2 = (Return (res, None), w3)"
    and "Commit uow w3 = (commitErr, w4)"
  shows "RunTxWithResult_joined factory action options w =
           (Return (case commitErr of
                      None \<Rightarrow> (res, None)
                    | Some ce \<Rightarrow> (None, Some (FailedToCommitError (Some ce)))),
            w4) \<and>
         RunTxWithResult_deferred factory action options w = (Return (res, commitErr), w4)"
  by (simp add: RunTxWithResult_joined_begun [OF assms(1,2)]
      RunTxWithResult_deferred_begun [OF assms(1,2)] assms(3,4) split: option.splits)

theorem commit_on_success_witness:
  "RunTxWithResult_joined (pgx_Factory id) action_ok None (empty_world all_ok) =
     (Return (Some 7, None),
      \<lparr>drv = all_ok\<lparr>calls := [PoolAcquire, ConnBeginTx 0 \<lparr>IsoLevel = [], AccessMode = []\<rparr>,
                               TxCommit 1, ConnRelease 0]\<rparr>,
       objs = [\<lparr>tx = Some 1, repoRegistry = Some 1, conn = 0, repoRegistryFactory = id\<rparr>]\<rparr>) \<and>
   RunTxWithResult_deferred (pgx_Factory id) action_ok None (empty_world all_ok) =
     (Return (Some 7, None),
      \<lparr>drv = all_ok\<lparr>calls := [PoolAcquire, ConnBeginTx 0 \<lparr>IsoLevel = [], AccessMode = []\<rparr>,
                               TxCommit 1, ConnRelease 0]\<rparr>,
       objs = [\<lparr>tx = Some 1, repoRegistry = Some 1, conn = 0, repoRegistryFactory = id\<rparr>]\<rparr>) \<and>
   fst (RunTxWithResult_joined (pgx_Factory id) action_ok None
          (empty_world (refusing (TxCommit 1) (Opaque ''commit failed'')))) =
     Return (None, Some (FailedToCommitError (Some (Opaque ''commit failed''))))"
proof -
  let ?z = "\<lparr>IsoLevel = [], AccessMode = []\<rparr>"
  let ?u = "\<lparr>tx = Some 1, repoRegistry = Some (id (1::nat)), conn = 0, repoRegistryFactory = id\<rparr>"
  let ?d = "all_ok"
  let ?w1 = "\<lparr>drv = ?d\<lparr>calls := [PoolAcquire]\<rparr>, objs = [newPgUOW 0 (id :: nat \<Rightarrow> nat)]\<rparr>"
  let ?w2 = "\<lparr>drv = ?d\<lparr>calls := [PoolAcquire, ConnBeginTx 0 ?z]\<rparr>, objs = [?u]\<rparr>"
  let ?w4 = "\<lparr>drv = ?d\<lparr>calls := [PoolAcquire, ConnBeginTx 0 ?z, TxCommit 1, ConnRelease 0]\<rparr>,
              objs = [?u]\<rparr>"
  let ?e = "refusing (TxCommit 1) (Opaque ''commit failed'')"
  let ?v1 = "\<lparr>drv = ?e\<lparr>calls := [PoolAcquire]\<rparr>, objs = [newPgUOW 0 (id :: nat \<Rightarrow> nat)]\<rparr>"
  let ?v2 = "\<lparr>drv = ?e\<lparr>calls := [PoolAcquire, ConnBeginTx 0 ?z]\<rparr>, objs = [?u]\<rparr>"
  let ?v4 = "\<lparr>drv = ?e\<lparr>calls := [PoolAcquire, ConnBeginTx 0 ?z, TxCommit 1, ConnRelease 0]\<rparr>,
              objs = [?u]\<rparr>"
  have h1: "NewUOW (pgx_Factory id) (empty_world ?d) = (Inr (pgUOW_iface 0), ?w1)"
    by (rule pgx_acquired) (simp_all add: all_ok_def)
  have h2: "Begin (pgUOW_iface 0) None ?w1 = (None, ?w2)"
    by (rule pgx_begun) (simp add: all_ok_def)
  have h3: "action_ok (pgUOW_iface 0) ?w2 = (Return (Some 7, None), ?w2)"
    by (simp add: action_ok_def)
  have h4: "Commit (pgUOW_iface 0) ?w2 = (None, ?w4)"
    by (simp add: pgx_Commit_eq pgUOW_Commit_eq all_ok_def)
  have k1: "NewUOW (pgx_Factory id) (empty_world ?e) = (Inr (pgUOW_iface 0), ?v1)"
    by (rule pgx_acquired) (simp_all add: refusing_def)
  have k2: "Begin (pgUOW_iface 0) None ?v1 = (None, ?v2)"
    by (rule pgx_begun) (simp add: refusing_def)
  have k3: "action_ok (pgUOW_iface 0) ?v2 = (Return (Some 7, None), ?v2)"
    by (simp add: action_ok_def)
  have k4: "Commit (pgUOW_iface 0) ?v2 = (Some (Opaque ''commit failed''), ?v4)"
    by (simp add: pgx_Commit_eq pgUOW_Commit_eq refusing_def)
  show ?thesis
    using commit_on_success [where action = action_ok, OF h1 h2 h3 h4]
      commit_on_success [where action = action_ok, OF k1 k2 k3 k4]
    by simp
qed

text \<open>
  Claim C3 as stated fails for the version with deferred finalisation: the action
  succeeds, the commit fails, and the helper returns the action's result together
  with the commit's own error, not wrapped.
\<close>

theorem commit_error_unwrapped_counterexample:
  "fst (RunTxWithResult_deferred (pgx_Factory id) action_ok None
          (empty_world (refusing (TxCommit 1) (Opaque ''commit failed'')))) =
     Return (Some 7, Some (Opaque ''commit failed''))"
  by (simp add: RunTxWithResult_deferred_def pgx_run refusing_def action_ok_def)

section \<open>Begin fails\<close>

text \<open>
  Claim C4, as the code has it. Let the factory have made a unit of work and its
  Begin fail with \<open>err\<close>, leaving the world \<open>w2\<close>. Both versions of
  \<^verbatim>\<open>RunTxWithResult\<close> return at once, with no result and in the world \<open>w2\<close>: the
  action is not invoked, whatever it is, and neither Commit nor Rollback is called.
  The version with explicit finalisation returns \<^verbatim>\<open>FailedToStartTransaction\<close> of
  \<open>err\<close>; the version with deferred finalisation returns \<open>err\<close> itself. In both
  adapters a Begin that fails leaves the unit of work as it was, so that a new
  unit of work still holds no transaction and no registry.
\<close>

theorem begin_failure:
  assumes "NewUOW factory w = (Inr uow, w1)"
    and "Begin uow options w1 = (Some err, w2)"
  shows "RunTxWithResult_joined factory action options w =
           (Return (None, Some (FailedToStartTransactionError (Some err))), w2) \<and>
         RunTxWithResult_deferred factory action options w = (Return (None, Some err), w2) \<and>
         (fst (pgUOW_Begin opts (u, d)) \<noteq> None \<longrightarrow> fst (snd (pgUOW_Begin opts (u, d))) = u) \<and>
         (fst (sqlUOW_Begin opts (v, d)) \<noteq> None \<longrightarrow> fst (snd (sqlUOW_Begin opts (v, d))) = v)"
  using assms
  by (simp add: RunTxWithResult_joined_def RunTxWithResult_deferred_def
      FailedToStartTransaction_def pgUOW_Begin_eq sqlUOW_Begin_eq split: option.splits)

theorem begin_failure_witness:
  "RunTxWithResult_joined (pgx_Factory id) action_ok None
     (empty_world (refusing (ConnBeginTx 0 \<lparr>IsoLevel = [], AccessMode = []\<rparr>)
                     (Opaque ''begin failed''))) =
     (Return (None, Some (FailedToStartTransactionError (Some (Opaque ''begin failed'')))),
      \<lparr>drv = (refusing (ConnBeginTx 0 \<lparr>IsoLevel = [], AccessMode = []\<rparr>) (Opaque ''begin failed''))
               \<lparr>calls := [PoolAcquire, ConnBeginTx 0 \<lparr>IsoLevel = [], AccessMode = []\<rparr>]\<rparr>,
       objs = [\<lparr>tx = None, repoRegistry = None, conn = 0, repoRegistryFactory = id\<rparr>]\<rparr>) \<and>
   RunTxWithResult_deferred (pgx_Factory id) action_ok None
     (empty_world (refusing (ConnBeginTx 0 \<lparr>IsoLevel = [], AccessMode = []\<rparr>)
                     (Opaque ''begin failed''))) =
     (Return (None, Some (Opaque ''begin failed'')),
      \<lparr>drv = (refusing (ConnBeginTx 0 \<lparr>IsoLevel = [], AccessMode = []\<rparr>) (Opaque ''begin failed''))
               \<lparr>calls := [PoolAcquire, ConnBeginTx 0 \<lparr>IsoLevel = [], AccessMode = []\<rparr>]\<rparr>,
       objs = [\<lparr>tx = None, repoRegistry = None, conn = 0, repoRegistryFactory = id\<rparr>]\<rparr>) \<and>
   fst (pgUOW_Begin None
          (newPgUOW 0 id :: nat pgUOW,
           refusing (ConnBeginTx 0 \<lparr>IsoLevel = [], AccessMode = []\<rparr>) (Opaque ''begin failed''))) =
     Some (Opaque ''begin failed'') \<and>
   fst (snd (pgUOW_Begin None
          (newPgUOW 0 id :: nat pgUOW,
           refusing (ConnBeginTx 0 \<lparr>IsoLevel = [], AccessMode = []\<rparr>) (Opaque ''begin failed'')))) =
     newPgUOW 0 id \<and>
   fst (sqlUOW_Begin None
          (newSQLUOW 0 id :: nat sqlUOW, refusing (DBBeginTx 0 None) (Opaque ''begin failed''))) =
     Some (wrapError ''failed to begin transaction: '' (Some (Opaque ''begin failed''))) \<and>
   fst (snd (sqlUOW_Begin None
          (newSQLUOW 0 id :: nat sqlUOW, refusing (DBBeginTx 0 None) (Opaque ''begin failed'')))) =
     newSQLUOW 0 id"
proof -
  let ?z = "\<lparr>IsoLevel = [], AccessMode = []\<rparr>"
  let ?d = "refusing (ConnBeginTx 0 ?z) (Opaque ''begin failed'')"
  let ?e = "refusing (DBBeginTx 0 None) (Opaque ''begin failed'')"
  let ?u = "newPgUOW 0 id :: nat pgUOW"
  let ?v = "newSQLUOW 0 id :: nat sqlUOW"
  let ?w1 = "\<lparr>drv = ?d\<lparr>calls := [PoolAcquire]\<rparr>, objs = [?u]\<rparr>"
  let ?w2 = "\<lparr>drv = ?d\<lparr>calls := [PoolAcquire, ConnBeginTx 0 ?z]\<rparr>, objs = [?u]\<rparr>"
  have h1: "NewUOW (pgx_Factory id) (empty_world ?d) = (Inr (pgUOW_iface 0), ?w1)"
    by (rule pgx_acquired) (simp_all add: refusing_def)
  have h2: "Begin (pgUOW_iface 0) None ?w1 = (Some (Opaque ''begin failed''), ?w2)"
    by (simp add: pgx_Begin_eq pgUOW_Begin_eq newPgUOW_def mapSQLTxOptionsToPgx_None refusing_def)
  have p: "fst (pgUOW_Begin None (?u, ?d)) = Some (Opaque ''begin failed'')"
    by (simp add: pgUOW_Begin_eq newPgUOW_def mapSQLTxOptionsToPgx_None refusing_def)
  have q: "fst (sqlUOW_Begin None (?v, ?e)) =
             Some (wrapError ''failed to begin transaction: '' (Some (Opaque ''begin failed'')))"
    by (simp add: sqlUOW_Begin_eq newSQLUOW_def refusing_def)
  note t1 = begin_failure [where action = action_ok and opts = None and u = ?u and d = ?d
      and v = ?v, OF h1 h2]
  note t2 = begin_failure [where action = action_ok and opts = None and u = ?u and d = ?e
      and v = ?v, OF h1 h2]
  have "fst (snd (pgUOW_Begin None (?u, ?d))) = ?u"
    using t1 p by simp
  moreover have "fst (snd (sqlUOW_Begin None (?v, ?e))) = ?v"
    using t2 q by simp
  moreover have "RunTxWithResult_joined (pgx_Factory id) action_ok None (empty_world ?d) =
      (Return (None, Some (FailedToStartTransactionError (Some (Opaque ''begin failed'')))), ?w2)"
    using t1 by blast
  moreover have "RunTxWithResult_deferred (pgx_Factory id) action_ok None (empty_world ?d) =
      (Return (None, Some (Opaque ''begin failed'')), ?w2)"
    using t1 by blast
  ultimately show ?thesis
    using p q by (simp add: newPgUOW_def)
qed

text \<open>
  Claim C4 as stated fails for the version with deferred finalisation: the native
  begin fails and the helper returns the driver's error as it is, not a
  \<^verbatim>\<open>FailedToStartTransactionError\<close> around it.
\<close>

theorem begin_error_unwrapped_counterexample:
  "fst (RunTxWithResult_deferred (pgx_Factory id) action_ok None
          (empty_world (refusing (ConnBeginTx 0 \<lparr>IsoLevel = [], AccessMode = []\<rparr>)
                          (Opaque ''begin failed'')))) =
     Return (None, Some (Opaque ''begin failed''))"
  by (simp add: RunTxWithResult_deferred_def pgx_run refusing_def)

section \<open>RunTx is RunTxWithResult\<close>


end
